theory Spec2Isabelle
  imports Complex_Main "HOL-Library.Char_ord" "HOL-Library.List_Lexorder"
    "HOL-Library.Product_Lexorder" "HOL-Library.Multiset"
begin

section \<open>The aggregation query layer (app.py)\<close>

subsection \<open>The stored table and SQLite values\<close>

text \<open>
  Exceptions of the Python code, as values. \<open>LookupError\<close> stands for Python's
  \<open>KeyError\<close> and \<open>IndexError\<close> (its two subclasses), \<open>OperationalError\<close> for
  \<open>sqlite3.OperationalError\<close> (a query or an index naming a column the table lacks).
\<close>

datatype error = LookupError | TypeError | AttributeError | ValueError | OperationalError

text \<open>
  A value stored in a cell of the \<open>sales\<close> table, or returned by a query: NULL, a number
  (SQLite INTEGER and REAL, Python int and float; arithmetic is exact, in \<open>rat\<close>, so
  the rounding error of binary floating point is not part of the model) or text.
\<close>

datatype sqlval = Null | Num rat | Text string

record table =
  schema :: "string list"
  rows :: "sqlval list list"

text \<open>SQLite resolves a column name of a query without regard to (ASCII) case.\<close>

definition ascii_upper :: "char \<Rightarrow> char" where
  "ascii_upper c =
     (case map_of (zip ''abcdefghijklmnopqrstuvwxyz'' ''ABCDEFGHIJKLMNOPQRSTUVWXYZ'') c of
        Some u \<Rightarrow> u
      | None \<Rightarrow> c)"

definition has_columns :: "table \<Rightarrow> string list \<Rightarrow> bool" where
  "has_columns t cs =
     (set (map (map ascii_upper) cs) \<subseteq> set (map (map ascii_upper) (schema t)))"

text \<open>
  The value of column \<open>c\<close> in row \<open>r\<close>. Every row of a stored table has one value per
  column of the schema; on a row that is too short the lookup gives NULL.
\<close>

definition cell :: "table \<Rightarrow> string \<Rightarrow> sqlval list \<Rightarrow> sqlval" where
  "cell t c r =
     (case map_of (zip (map (map ascii_upper) (schema t)) r) (map ascii_upper c) of
        Some v \<Rightarrow> v
      | None \<Rightarrow> Null)"

text \<open>\<open>PRAGMA table_info(sales)\<close>, read as \<open>[row[1] for row in cursor.fetchall()]\<close>.\<close>

definition table_info :: "table \<Rightarrow> string list" where
  "table_info t = schema t"

text \<open>
  SQLite's order of values: NULL, then numbers by value, then text by bytes. The key
  is injective, so sorting by it is sorting the values.
\<close>

definition sqlkey :: "sqlval \<Rightarrow> nat \<times> rat \<times> string" where
  "sqlkey v = (case v of Null \<Rightarrow> (0, 0, []) | Num r \<Rightarrow> (1, r, []) | Text s \<Rightarrow> (2, 0, s))"


subsection \<open>SQL aggregates, GROUP BY, ORDER BY, LIMIT\<close>

text \<open>
  The numeric reading of a value inside \<open>SUM\<close> and \<open>AVG\<close>: NULL is skipped, and text is
  read by SQLite's conversion of text to a number, which is the parameter \<open>cast\<close>.
\<close>

definition sql_numeric :: "(string \<Rightarrow> rat) \<Rightarrow> sqlval \<Rightarrow> rat option" where
  "sql_numeric cast v = (case v of Null \<Rightarrow> None | Num r \<Rightarrow> Some r | Text s \<Rightarrow> Some (cast s))"

definition sql_sum :: "(string \<Rightarrow> rat) \<Rightarrow> sqlval list \<Rightarrow> sqlval" where
  "sql_sum cast vs =
     (let xs = List.map_filter (sql_numeric cast) vs
      in if xs = [] then Null else Num (sum_list xs))"

definition sql_avg :: "(string \<Rightarrow> rat) \<Rightarrow> sqlval list \<Rightarrow> sqlval" where
  "sql_avg cast vs =
     (let xs = List.map_filter (sql_numeric cast) vs
      in if xs = [] then Null else Num (sum_list xs / of_nat (length xs)))"

definition sql_count :: "'a list \<Rightarrow> sqlval" where
  "sql_count g = Num (of_nat (length g))"

definition sql_count_distinct :: "sqlval list \<Rightarrow> sqlval" where
  "sql_count_distinct vs = Num (of_nat (length (remdups (filter (\<lambda>v. v \<noteq> Null) vs))))"

text \<open>
  \<open>GROUP BY\<close>: one group per distinct key, with the rows of that key; the groups come
  in ascending order of the key (which the queries with \<open>ORDER BY\<close> on the grouping
  columns ask for, and which SQLite produces for the others).
\<close>

definition group_by :: "('r \<Rightarrow> 'k) \<Rightarrow> ('k \<Rightarrow> 'o::linorder) \<Rightarrow> 'r list \<Rightarrow> ('k \<times> 'r list) list" where
  "group_by key ord rs =
     map (\<lambda>k. (k, filter (\<lambda>r. key r = k) rs)) (sort_key ord (remdups (map key rs)))"

text \<open>
  \<open>ORDER BY f DESC\<close>: a stable sort, largest first (NULL last). The order among equal
  values is SQLite's choice; no theorem below depends on it.
\<close>

definition order_by_desc :: "('a \<Rightarrow> sqlval) \<Rightarrow> 'a list \<Rightarrow> 'a list" where
  "order_by_desc f xs = rev (sort_key (\<lambda>x. sqlkey (f x)) (rev xs))"

text \<open>\<open>LIMIT n\<close>: SQLite reads a negative limit as no limit.\<close>

definition sql_limit :: "int \<Rightarrow> 'a list \<Rightarrow> 'a list" where
  "sql_limit n xs = (if n < 0 then xs else take (nat n) xs)"

text \<open>A result record is a Python dict, here an association list in insertion order.\<close>

type_synonym pydict = "(string \<times> sqlval) list"

definition query_to_dict :: "string list \<Rightarrow> sqlval list list \<Rightarrow> pydict list" where
  "query_to_dict columns rws = map (\<lambda>row. zip columns row) rws"



subsection \<open>The operations\<close>


definition sales_by_country :: "(string \<Rightarrow> rat) \<Rightarrow> table \<Rightarrow> error + pydict list" where
  "sales_by_country cast t =
     (if ''COUNTRY'' \<in> set (table_info t) then
        (if \<not> has_columns t [''COUNTRY'', ''SALES''] then Inl OperationalError
         else Inr (query_to_dict [''COUNTRY'', ''total_sales'', ''order_count'']
           (map (\<lambda>(k, g). [k, sql_sum cast (map (cell t ''SALES'') g), sql_count g])
              (sql_limit 10
                 (order_by_desc (\<lambda>(k, g). sql_sum cast (map (cell t ''SALES'') g))
                    (group_by (cell t ''COUNTRY'') sqlkey (rows t)))))))
      else Inr [[(''message'', Text ''Country data not available in dataset'')]])"


definition top_by_customer :: "(string \<Rightarrow> rat) \<Rightarrow> table \<Rightarrow> int \<Rightarrow> error + pydict list" where
  "top_by_customer cast t limit =
     (if \<not> has_columns t [''CUSTOMERNAME'', ''SALES'', ''ORDERNUMBER''] then Inl OperationalError
      else Inr (query_to_dict [''customer_name'', ''total_sales'', ''order_count'', ''avg_order_value'']
        (map (\<lambda>(k, g). [k, sql_sum cast (map (cell t ''SALES'') g),
                         sql_count_distinct (map (cell t ''ORDERNUMBER'') g),
                         sql_avg cast (map (cell t ''SALES'') g)])
           (sql_limit limit
              (order_by_desc (\<lambda>(k, g). sql_sum cast (map (cell t ''SALES'') g))
                 (group_by (cell t ''CUSTOMERNAME'') sqlkey (rows t)))))))"

definition top_by_order :: "(string \<Rightarrow> rat) \<Rightarrow> table \<Rightarrow> int \<Rightarrow> error + pydict list" where
  "top_by_order cast t limit =
     (if \<not> has_columns t [''ORDERNUMBER'', ''SALES''] then Inl OperationalError
      else Inr (query_to_dict [''order_id'', ''total_sales'', ''line_items'']
        (map (\<lambda>(k, g). [k, sql_sum cast (map (cell t ''SALES'') g), sql_count g])
           (sql_limit limit
              (order_by_desc (\<lambda>(k, g). sql_sum cast (map (cell t ''SALES'') g))
                 (group_by (cell t ''ORDERNUMBER'') sqlkey (rows t)))))))"

definition top_customers :: "(string \<Rightarrow> rat) \<Rightarrow> table \<Rightarrow> int \<Rightarrow> error + pydict list" where
  "top_customers cast t limit =
     (if ''CUSTOMERNAME'' \<in> set (table_info t) then top_by_customer cast t limit
      else top_by_order cast t limit)"

definition product_performance :: "(string \<Rightarrow> rat) \<Rightarrow> table \<Rightarrow> error + pydict list" where
  "product_performance cast t =
     (if ''PRODUCTLINE'' \<in> set (table_info t) then
        (if \<not> has_columns t [''PRODUCTLINE'', ''SALES'', ''QUANTITYORDERED'', ''ORDERNUMBER'']
         then Inl OperationalError
         else Inr (query_to_dict [''product'', ''total_sales'', ''total_quantity'', ''order_count'']
           (map (\<lambda>(k, g). [k, sql_sum cast (map (cell t ''SALES'') g),
                            sql_sum cast (map (cell t ''QUANTITYORDERED'') g),
                            sql_count_distinct (map (cell t ''ORDERNUMBER'') g)])
              (order_by_desc (\<lambda>(k, g). sql_sum cast (map (cell t ''SALES'') g))
                 (group_by (cell t ''PRODUCTLINE'') sqlkey (rows t))))))
      else Inr [[(''message'', Text ''Product line data not available'')]])"

subsection \<open>Sales trends: month-over-month growth\<close>







section \<open>The preprocessing pipeline (data_preprocessing.py)\<close>

subsection \<open>Data frames\<close>

text \<open>
  A pandas timestamp, to the day. A column of a \<open>DataFrame\<close> has a dtype: numeric
  (int64 or float64, a missing entry is NaN), object (text as \<open>read_csv\<close> loads it, a
  missing entry is NaN) or datetime64 (a missing entry is NaT). A data frame is the list
  of its named columns, in order; frames are taken to hold at least one column when
  they hold rows.
\<close>

datatype timestamp = Timestamp (ts_year: int) (ts_month: nat) (ts_day: nat)

datatype column =
    NumCol "rat option list"
  | ObjCol "string option list"
  | DateCol "timestamp option list"

type_synonym dataframe = "(string \<times> column) list"

definition columns :: "dataframe \<Rightarrow> string list" where
  "columns df = map fst df"

definition col_len :: "column \<Rightarrow> nat" where
  "col_len c = (case c of NumCol xs \<Rightarrow> length xs | ObjCol xs \<Rightarrow> length xs | DateCol xs \<Rightarrow> length xs)"

definition nrows :: "dataframe \<Rightarrow> nat" where
  "nrows df = (case df of [] \<Rightarrow> 0 | (name, c) # _ \<Rightarrow> col_len c)"

text \<open>\<open>df[name] = c\<close>: replaces the column of that name where it stands, or appends it.\<close>

fun set_col :: "dataframe \<Rightarrow> string \<Rightarrow> column \<Rightarrow> dataframe" where
  "set_col [] name c = [(name, c)]"
| "set_col ((name', c') # df) name c =
     (if name' = name then (name, c) # df else (name', c') # set_col df name c)"

text \<open>
  One entry of a row, with the dtype of its column; rows are compared by these. The
  columns of a frame have the same length; a position past the end of a column reads
  as missing.
\<close>

datatype entry = NumV "rat option" | ObjV "string option" | DateV "timestamp option"

definition nth_or_null :: "'a option list \<Rightarrow> nat \<Rightarrow> 'a option" where
  "nth_or_null xs i = (if i < length xs then xs ! i else None)"

definition entry_at :: "column \<Rightarrow> nat \<Rightarrow> entry" where
  "entry_at c i =
     (case c of
        NumCol xs \<Rightarrow> NumV (nth_or_null xs i)
      | ObjCol xs \<Rightarrow> ObjV (nth_or_null xs i)
      | DateCol xs \<Rightarrow> DateV (nth_or_null xs i))"

definition row_at :: "dataframe \<Rightarrow> nat \<Rightarrow> entry list" where
  "row_at df i = map (\<lambda>(name, c). entry_at c i) df"

definition df_rows :: "dataframe \<Rightarrow> entry list list" where
  "df_rows df = map (row_at df) [0..<nrows df]"

subsection \<open>Step 1: column selection\<close>

definition required_cols :: "string list" where
  "required_cols =
     [''ORDERNUMBER'', ''QUANTITYORDERED'', ''PRICEEACH'',
      ''ORDERLINENUMBER'', ''SALES'', ''ORDERDATE'',
      ''STATUS'', ''QTR_ID'', ''MONTH_ID'', ''YEAR_ID'']"

definition select_columns :: "dataframe \<Rightarrow> dataframe" where
  "select_columns df =
     (let available_cols = filter (\<lambda>col. col \<in> set (columns df)) required_cols
      in map (\<lambda>col. (col, the (map_of df col))) available_cols)"

subsection \<open>Step 2: missing values\<close>

definition non_null :: "'a option list \<Rightarrow> 'a list" where
  "non_null xs = List.map_filter (\<lambda>x. x) xs"

definition null_count :: "'a option list \<Rightarrow> nat" where
  "null_count xs = length (filter (\<lambda>x. x = None) xs)"

definition fillna :: "'a \<Rightarrow> 'a option list \<Rightarrow> 'a option list" where
  "fillna v xs = map (\<lambda>x. case x of None \<Rightarrow> Some v | Some y \<Rightarrow> Some y) xs"

text \<open>
  \<open>Series.median()\<close> of the values that are not missing: the middle one of the sorted
  values, or the mean of the two middle ones; NaN (here \<open>None\<close>) when there is none.
\<close>

definition median :: "rat list \<Rightarrow> rat option" where
  "median vs =
     (let s = sort vs; n = length s
      in if n = 0 then None
         else if odd n then Some (s ! (n div 2))
         else Some ((s ! (n div 2 - 1) + s ! (n div 2)) / 2))"

text \<open>
  \<open>Series.mode()\<close>: the values that are not missing and occur most often, sorted in
  ascending order (pandas sorts the modes); empty when every entry is missing.
\<close>

definition mode :: "string option list \<Rightarrow> string list" where
  "mode xs =
     (let vs = non_null xs; top = Max (set (map (count_list vs) vs))
      in sort (remdups (filter (\<lambda>v. count_list vs v = top) vs)))"


text \<open>
  \<open>df[col].fillna(df[col].median(), inplace=True)\<close>, as it acts on the frame (pandas
  without copy-on-write). Filling with a NaN median leaves the column as it is.
\<close>

definition fill_numeric :: "rat option list \<Rightarrow> rat option list" where
  "fill_numeric xs =
     (if 0 < null_count xs
      then (case median (non_null xs) of None \<Rightarrow> xs | Some m \<Rightarrow> fillna m xs)
      else xs)"

text \<open>\<open>df[col].mode()[0]\<close> raises when the mode is empty.\<close>

definition fill_categorical :: "string option list \<Rightarrow> error + string option list" where
  "fill_categorical xs =
     (if 0 < null_count xs
      then (case mode xs of [] \<Rightarrow> Inl LookupError | m # _ \<Rightarrow> Inr (fillna m xs))
      else Inr xs)"

fun fill_numeric_cols :: "dataframe \<Rightarrow> dataframe" where
  "fill_numeric_cols [] = []"
| "fill_numeric_cols ((name, c) # df) =
     (name, case c of NumCol xs \<Rightarrow> NumCol (fill_numeric xs) | _ \<Rightarrow> c) # fill_numeric_cols df"

fun fill_categorical_cols :: "dataframe \<Rightarrow> error + dataframe" where
  "fill_categorical_cols [] = Inr []"
| "fill_categorical_cols ((name, c) # df) =
     (case (case c of
              ObjCol xs \<Rightarrow> (case fill_categorical xs of Inl e \<Rightarrow> Inl e | Inr ys \<Rightarrow> Inr (ObjCol ys))
            | _ \<Rightarrow> Inr c) of
        Inl e \<Rightarrow> Inl e
      | Inr c' \<Rightarrow>
          (case fill_categorical_cols df of
             Inl e \<Rightarrow> Inl e
           | Inr df' \<Rightarrow> Inr ((name, c') # df')))"

definition handle_missing_data :: "dataframe \<Rightarrow> error + dataframe" where
  "handle_missing_data df = fill_categorical_cols (fill_numeric_cols df)"

subsection \<open>Step 3: duplicates\<close>

text \<open>
  \<open>df.duplicated()\<close> marks a row that equals an earlier row (missing entries compare
  equal); \<open>drop_duplicates\<close> keeps the rows that are not marked.
\<close>

definition duplicated :: "dataframe \<Rightarrow> nat \<Rightarrow> bool" where
  "duplicated df i = (row_at df i \<in> set (map (row_at df) [0..<i]))"

definition take_rows :: "nat list \<Rightarrow> column \<Rightarrow> column" where
  "take_rows keep c =
     (case c of
        NumCol xs \<Rightarrow> NumCol (map (nth_or_null xs) keep)
      | ObjCol xs \<Rightarrow> ObjCol (map (nth_or_null xs) keep)
      | DateCol xs \<Rightarrow> DateCol (map (nth_or_null xs) keep))"

definition drop_duplicates :: "dataframe \<Rightarrow> dataframe" where
  "drop_duplicates df =
     (let keep = filter (\<lambda>i. \<not> duplicated df i) [0..<nrows df]
      in map (\<lambda>(name, c). (name, take_rows keep c)) df)"

definition handle_duplicates :: "dataframe \<Rightarrow> dataframe" where
  "handle_duplicates df = drop_duplicates df"

subsection \<open>Step 4: categories\<close>

text \<open>
  \<open>str.strip()\<close> and \<open>str.upper()\<close> on text of one byte per character: the white space
  of Python in that range, and the ASCII letters.
\<close>

definition py_whitespace :: "char list" where
  "py_whitespace =
     [CHR '' '', CHR 0x09, CHR 0x0A, CHR 0x0B, CHR 0x0C, CHR 0x0D,
      CHR 0x1C, CHR 0x1D, CHR 0x1E, CHR 0x1F, CHR 0x85, CHR 0xA0]"

definition py_strip :: "string \<Rightarrow> string" where
  "py_strip s =
     rev (dropWhile (\<lambda>c. c \<in> set py_whitespace) (rev (dropWhile (\<lambda>c. c \<in> set py_whitespace) s)))"

definition py_upper :: "string \<Rightarrow> string" where
  "py_upper s = map ascii_upper s"

text \<open>
  The \<open>.str\<close> accessor raises \<open>AttributeError\<close> on a column that is not of object
  dtype. The \<open>print\<close> after the guarded assignment evaluates \<open>df['STATUS']\<close> whether or
  not the column exists, which raises \<open>KeyError\<close> when it does not.
\<close>

definition normalize_categories :: "dataframe \<Rightarrow> error + dataframe" where
  "normalize_categories df =
     (case (if ''STATUS'' \<in> set (columns df)
            then (case map_of df ''STATUS'' of
                    Some (ObjCol xs) \<Rightarrow>
                      Inr (set_col df ''STATUS'' (ObjCol (map (map_option (\<lambda>s. py_upper (py_strip s))) xs)))
                  | _ \<Rightarrow> Inl AttributeError)
            else Inr df) of
        Inl e \<Rightarrow> Inl e
      | Inr df' \<Rightarrow> (if ''STATUS'' \<in> set (columns df') then Inr df' else Inl LookupError))"

subsection \<open>Step 5: date features\<close>

text \<open>
  \<open>pd.to_datetime(column, errors='coerce')\<close>. How pandas reads an entry as a date is
  the parameter \<open>parse\<close>, which is given the whole column and the position (pandas
  infers the format from the column); \<open>None\<close> is NaT, the result for an entry that
  cannot be read. A missing entry gives NaT, and a datetime column is left as it is.
\<close>

definition pd_to_datetime :: "(column \<Rightarrow> nat \<Rightarrow> timestamp option) \<Rightarrow> column \<Rightarrow> timestamp option list" where
  "pd_to_datetime parse c =
     (case c of
        DateCol ds \<Rightarrow> ds
      | NumCol xs \<Rightarrow> map (\<lambda>i. case xs ! i of None \<Rightarrow> None | Some _ \<Rightarrow> parse c i) [0..<length xs]
      | ObjCol xs \<Rightarrow> map (\<lambda>i. case xs ! i of None \<Rightarrow> None | Some _ \<Rightarrow> parse c i) [0..<length xs])"

text \<open>\<open>.dt.year\<close>, \<open>.dt.month\<close> and \<open>.dt.quarter\<close>: NaN where the date is NaT.\<close>

definition dt_year :: "timestamp option list \<Rightarrow> rat option list" where
  "dt_year ds = map (map_option (\<lambda>d. of_int (ts_year d))) ds"

definition dt_month :: "timestamp option list \<Rightarrow> rat option list" where
  "dt_month ds = map (map_option (\<lambda>d. of_nat (ts_month d))) ds"

definition dt_quarter :: "timestamp option list \<Rightarrow> rat option list" where
  "dt_quarter ds = map (map_option (\<lambda>d. of_nat ((ts_month d - 1) div 3 + 1))) ds"

definition extract_date_features :: "(column \<Rightarrow> nat \<Rightarrow> timestamp option) \<Rightarrow> dataframe \<Rightarrow> dataframe" where
  "extract_date_features parse df =
     (if ''ORDERDATE'' \<in> set (columns df) then
        (let dates = pd_to_datetime parse (the (map_of df ''ORDERDATE''));
             df1 = set_col df ''ORDERDATE'' (DateCol dates);
             df2 = (if ''YEAR_ID'' \<notin> set (columns df1)
                    then set_col df1 ''YEAR_ID'' (NumCol (dt_year dates)) else df1);
             df3 = (if ''MONTH_ID'' \<notin> set (columns df2)
                    then set_col df2 ''MONTH_ID'' (NumCol (dt_month dates)) else df2);
             df4 = (if ''QTR_ID'' \<notin> set (columns df3)
                    then set_col df3 ''QTR_ID'' (NumCol (dt_quarter dates)) else df3)
         in df4)
      else df)"

subsection \<open>Steps 6 and 7: validation and storage\<close>

text \<open>
  \<open>validate_data\<close> only prints. \<open>df.describe()\<close> raises \<open>ValueError\<close> on a frame without
  columns, and \<open>df['SALES'] < 0\<close> raises \<open>TypeError\<close> when the column holds text or dates.
\<close>

definition validate_data :: "dataframe \<Rightarrow> error + dataframe" where
  "validate_data df =
     (if df = [] then Inl ValueError
      else if ''SALES'' \<in> set (columns df) then
        (case map_of df ''SALES'' of
           Some (ObjCol xs) \<Rightarrow> if non_null xs = [] then Inr df else Inl TypeError
         | Some (DateCol ds) \<Rightarrow> Inl TypeError
         | _ \<Rightarrow> Inr df)
      else Inr df)"

text \<open>
  \<open>df.to_sql('sales', conn, if_exists='replace', index=False)\<close>: the table gets the
  columns of the frame and its rows; a date is stored as text, in the format \<open>fmt\<close>.
\<close>

definition sql_of :: "(timestamp \<Rightarrow> string) \<Rightarrow> entry \<Rightarrow> sqlval" where
  "sql_of fmt e =
     (case e of
        NumV x \<Rightarrow> (case x of None \<Rightarrow> Null | Some r \<Rightarrow> Num r)
      | ObjV x \<Rightarrow> (case x of None \<Rightarrow> Null | Some s \<Rightarrow> Text s)
      | DateV x \<Rightarrow> (case x of None \<Rightarrow> Null | Some d \<Rightarrow> Text (fmt d)))"

definition to_sql :: "(timestamp \<Rightarrow> string) \<Rightarrow> dataframe \<Rightarrow> table" where
  "to_sql fmt df = \<lparr>schema = columns df, rows = map (map (sql_of fmt)) (df_rows df)\<rparr>"

text \<open>
  The three \<open>CREATE INDEX\<close> statements, each of which fails on a table without its
  column. The table has been written by then: \<open>store_in_database\<close> returns the table
  in the database together with the outcome of the indexing.
\<close>

definition create_indexes :: "table \<Rightarrow> error + unit" where
  "create_indexes t =
     (if \<not> has_columns t [''ORDERDATE''] then Inl OperationalError
      else if \<not> has_columns t [''STATUS''] then Inl OperationalError
      else if \<not> has_columns t [''YEAR_ID''] then Inl OperationalError
      else Inr ())"

definition store_in_database :: "(timestamp \<Rightarrow> string) \<Rightarrow> dataframe \<Rightarrow> table \<times> (error + unit)" where
  "store_in_database fmt df = (let t = to_sql fmt df in (t, create_indexes t))"

subsection \<open>The pipeline\<close>

text \<open>
  \<open>main\<close>, from the loaded frame on. The result is the table written to the database
  by this run (\<open>None\<close> when the run stops before \<open>to_sql\<close>) and what \<open>main\<close> returns or
  raises. The CSV export at the end writes a file and changes nothing here.
\<close>

definition main :: "(column \<Rightarrow> nat \<Rightarrow> timestamp option) \<Rightarrow> (timestamp \<Rightarrow> string) \<Rightarrow> dataframe
    \<Rightarrow> table option \<times> (error + dataframe)" where
  "main parse fmt df0 =
     (let df1 = select_columns df0
      in case handle_missing_data df1 of
           Inl e \<Rightarrow> (None, Inl e)
         | Inr df2 \<Rightarrow>
             (let df3 = handle_duplicates df2
              in case normalize_categories df3 of
                   Inl e \<Rightarrow> (None, Inl e)
                 | Inr df4 \<Rightarrow>
                     (let df5 = extract_date_features parse df4
                      in case validate_data df5 of
                           Inl e \<Rightarrow> (None, Inl e)
                         | Inr df6 \<Rightarrow>
                             (case store_in_database fmt df6 of
                                (t, Inl e) \<Rightarrow> (Some t, Inl e)
                              | (t, Inr u) \<Rightarrow> (Some t, Inr df6)))))"

section \<open>Example data\<close>








text \<open>
  A reading of dates and a format for them, for the examples: two dates are read, and
  anything else is not a date.
\<close>

definition example_parse :: "column \<Rightarrow> nat \<Rightarrow> timestamp option" where
  "example_parse c i =
     (case c of
        ObjCol xs \<Rightarrow>
          (if xs ! i = Some ''2/24/2003'' then Some (Timestamp 2003 2 24)
           else if xs ! i = Some ''5/7/2003'' then Some (Timestamp 2003 5 7)
           else None)
      | _ \<Rightarrow> None)"

definition example_fmt :: "timestamp \<Rightarrow> string" where
  "example_fmt d = (if ts_month d = 2 then ''2003-02-24 00:00:00'' else ''2003-05-07 00:00:00'')"

definition raw_frame :: dataframe where
  "raw_frame =
     [(''ORDERNUMBER'', NumCol [Some 10107, Some 10107, Some 10121]),
      (''QUANTITYORDERED'', NumCol [Some 30, Some 30, Some 34]),
      (''SALES'', NumCol [Some 2871, Some 2871, None]),
      (''ORDERDATE'', ObjCol [Some ''2/24/2003'', Some ''2/24/2003'', Some ''5/7/2003'']),
      (''STATUS'', ObjCol [Some '' Shipped'', Some '' Shipped'', Some ''shipped '']),
      (''PRODUCTLINE'', ObjCol [Some ''Motorcycles'', Some ''Motorcycles'', Some ''Motorcycles'']),
      (''CUSTOMERNAME'', ObjCol [Some ''Land of Toys Inc.'', Some ''Land of Toys Inc.'', Some ''Reims Collectables'']),
      (''COUNTRY'', ObjCol [Some ''USA'', Some ''USA'', Some ''France''])]"

definition no_status_frame :: dataframe where
  "no_status_frame =
     [(''ORDERNUMBER'', NumCol [Some 10107, Some 10121]),
      (''SALES'', NumCol [Some 2871, Some 2765]),
      (''ORDERDATE'', ObjCol [Some ''2/24/2003'', Some ''5/7/2003'']),
      (''YEAR_ID'', NumCol [Some 2003, Some 2003])]"



section \<open>Properties of the query layer\<close>

subsection \<open>Grouping, ordering and sums\<close>

































subsection \<open>The claims about the query layer\<close>





text \<open>
  C3. A table whose schema has no \<open>COUNTRY\<close> column makes sales-by-country return
  exactly one record, the informational message, and not an error or an empty list; a
  table with no \<open>PRODUCTLINE\<close> column makes product-performance do the same.
\<close>

theorem optional_column_placeholder:
  "(''COUNTRY'' \<notin> set (schema t) \<longrightarrow>
      sales_by_country cast t = Inr [[(''message'', Text ''Country data not available in dataset'')]])
   \<and> (''PRODUCTLINE'' \<notin> set (schema t) \<longrightarrow>
      product_performance cast t = Inr [[(''message'', Text ''Product line data not available'')]])"
  by (simp add: sales_by_country_def product_performance_def table_info_def)

theorem optional_column_placeholder_witness:
  "''COUNTRY'' \<notin> set (schema \<lparr>schema = [''ORDERNUMBER'', ''SALES''], rows = [[Num 1, Num 5]]\<rparr>)
   \<and> ''PRODUCTLINE'' \<notin> set (schema \<lparr>schema = [''ORDERNUMBER'', ''SALES''], rows = [[Num 1, Num 5]]\<rparr>)
   \<and> sales_by_country (\<lambda>s. 0) \<lparr>schema = [''ORDERNUMBER'', ''SALES''], rows = [[Num 1, Num 5]]\<rparr>
       = Inr [[(''message'', Text ''Country data not available in dataset'')]]
   \<and> length (projr (sales_by_country (\<lambda>s. 0) \<lparr>schema = [''ORDERNUMBER'', ''SALES''], rows = [[Num 1, Num 5]]\<rparr>)) = 1
   \<and> product_performance (\<lambda>s. 0) \<lparr>schema = [''ORDERNUMBER'', ''SALES''], rows = [[Num 1, Num 5]]\<rparr>
       = Inr [[(''message'', Text ''Product line data not available'')]]"
  using optional_column_placeholder
    [of "\<lparr>schema = [''ORDERNUMBER'', ''SALES''], rows = [[Num 1, Num 5]]\<rparr>" "\<lambda>s. 0"]
  by simp







section \<open>Properties of the pipeline\<close>

subsection \<open>Deduplication\<close>

lemma entry_at_take_rows:
  "j < length keep \<Longrightarrow> entry_at (take_rows keep c) j = entry_at c (keep ! j)"
  by (cases c) (simp_all add: entry_at_def take_rows_def nth_or_null_def)

lemma col_len_take_rows: "col_len (take_rows keep c) = length keep"
  by (cases c) (simp_all add: col_len_def take_rows_def)

lemma row_at_take_rows:
  "j < length keep \<Longrightarrow>
   row_at (map (\<lambda>(name, c). (name, take_rows keep c)) df) j = row_at df (keep ! j)"
  by (simp add: row_at_def comp_def case_prod_unfold entry_at_take_rows)

lemma nrows_take_rows:
  "df \<noteq> [] \<Longrightarrow> nrows (map (\<lambda>(name, c). (name, take_rows keep c)) df) = length keep"
  by (cases df) (auto simp: nrows_def col_len_take_rows)

lemma map_nth_comp: "map (\<lambda>j. f (xs ! j)) [0..<length xs] = map f xs"
proof -
  have "map f (map (\<lambda>j. xs ! j) [0..<length xs]) = map f xs"
    by (simp only: map_nth)
  then show ?thesis
    by (simp only: map_map comp_def)
qed

lemma df_rows_drop_duplicates:
  "df_rows (drop_duplicates df)
     = map (row_at df) (filter (\<lambda>i. \<not> duplicated df i) [0..<nrows df])"
proof (cases "df = []")
  case True
  then show ?thesis
    by (simp add: df_rows_def drop_duplicates_def nrows_def)
next
  case False
  let ?keep = "filter (\<lambda>i. \<not> duplicated df i) [0..<nrows df]"
  have "df_rows (drop_duplicates df)
      = map (row_at (map (\<lambda>(name, c). (name, take_rows ?keep c)) df)) [0..<length ?keep]"
    using False by (simp add: df_rows_def drop_duplicates_def Let_def nrows_take_rows)
  also have "\<dots> = map (\<lambda>j. row_at df (?keep ! j)) [0..<length ?keep]"
    by (intro map_cong refl) (simp add: row_at_take_rows)
  also have "\<dots> = map (row_at df) ?keep"
    by (rule map_nth_comp)
  finally show ?thesis .
qed

lemma first_occurrences_distinct:
  "distinct (map (\<lambda>i. rs ! i) (filter (\<lambda>i. rs ! i \<notin> set (take i rs)) [0..<length rs]))"
proof -
  have "inj_on (\<lambda>i. rs ! i) {i. i < length rs \<and> rs ! i \<notin> set (take i rs)}"
  proof (rule inj_onI)
    fix i j
    assume i: "i \<in> {i. i < length rs \<and> rs ! i \<notin> set (take i rs)}"
      and j: "j \<in> {i. i < length rs \<and> rs ! i \<notin> set (take i rs)}"
      and eq: "rs ! i = rs ! j"
    have earlier: "rs ! a \<in> set (take b rs)" if "a < b" "b < length rs" for a b
      using that by (auto simp: in_set_conv_nth intro!: exI [of _ a])
    show "i = j"
    proof (rule ccontr)
      assume "i \<noteq> j"
      then consider "i < j" | "j < i" by linarith
      then show False
      proof cases
        case 1
        with earlier [of i j] i j eq show False by simp
      next
        case 2
        with earlier [of j i] i j eq show False by simp
      qed
    qed
  qed
  then show ?thesis
    by (simp add: distinct_map)
qed

lemma first_occurrences_set:
  "set (map (\<lambda>i. rs ! i) (filter (\<lambda>i. rs ! i \<notin> set (take i rs)) [0..<length rs])) = set rs"
proof
  show "set (map (\<lambda>i. rs ! i) (filter (\<lambda>i. rs ! i \<notin> set (take i rs)) [0..<length rs])) \<subseteq> set rs"
    by auto
next
  show "set rs \<subseteq> set (map (\<lambda>i. rs ! i) (filter (\<lambda>i. rs ! i \<notin> set (take i rs)) [0..<length rs]))"
  proof
    fix x
    assume "x \<in> set rs"
    then obtain k where k: "k < length rs" "rs ! k = x"
      by (auto simp: in_set_conv_nth)
    define i where "i = (LEAST i. i < length rs \<and> rs ! i = x)"
    have i: "i < length rs \<and> rs ! i = x"
      unfolding i_def by (rule LeastI [of _ k]) (use k in simp)
    have least: "\<not> (a < length rs \<and> rs ! a = x)" if "a < i" for a
      using that not_less_Least unfolding i_def by blast
    have "rs ! i \<notin> set (take i rs)"
    proof
      assume "rs ! i \<in> set (take i rs)"
      then obtain a where "a < i" "a < length rs" "rs ! a = rs ! i"
        by (auto simp: in_set_conv_nth)
      with least [of a] i show False by simp
    qed
    with i show "x \<in> set (map (\<lambda>i. rs ! i) (filter (\<lambda>i. rs ! i \<notin> set (take i rs)) [0..<length rs]))"
      by force
  qed
qed


text \<open>
  C7. The rows of the deduplicated frame are the rows of the input that do not equal
  an earlier row, in their original order: no two of them are equal, every row of the
  input is among them, there are at most as many as before, and the columns are kept.
\<close>

theorem handle_duplicates_first_occurrences:
  "df_rows (handle_duplicates df)
     = map (\<lambda>i. df_rows df ! i)
         (filter (\<lambda>i. df_rows df ! i \<notin> set (take i (df_rows df))) [0..<length (df_rows df)])
   \<and> distinct (df_rows (handle_duplicates df))
   \<and> set (df_rows (handle_duplicates df)) = set (df_rows df)
   \<and> length (df_rows (handle_duplicates df)) \<le> length (df_rows df)
   \<and> nrows (handle_duplicates df) \<le> nrows df
   \<and> columns (handle_duplicates df) = columns df"
proof -
  let ?rs = "df_rows df"
  let ?first = "filter (\<lambda>i. ?rs ! i \<notin> set (take i ?rs)) [0..<length ?rs]"
  have len: "length ?rs = nrows df"
    by (simp add: df_rows_def)
  have nth: "?rs ! i = row_at df i" if "i < nrows df" for i
    using that by (simp add: df_rows_def)
  have tk: "set (take i ?rs) = set (map (row_at df) [0..<i])" if "i < nrows df" for i
    using that by (simp add: df_rows_def take_map)
  have pred: "(\<not> duplicated df i) = (?rs ! i \<notin> set (take i ?rs))" if "i < nrows df" for i
    unfolding duplicated_def nth [OF that] tk [OF that] ..
  have keep: "filter (\<lambda>i. \<not> duplicated df i) [0..<nrows df] = ?first"
    unfolding len by (rule filter_cong) (use pred in simp_all)
  have "df_rows (handle_duplicates df) = map (row_at df) ?first"
    unfolding handle_duplicates_def df_rows_drop_duplicates keep ..
  also have "\<dots> = map (\<lambda>i. ?rs ! i) ?first"
    by (rule map_cong) (use nth len in simp_all)
  finally have eq: "df_rows (handle_duplicates df) = map (\<lambda>i. ?rs ! i) ?first" .
  have d: "distinct (df_rows (handle_duplicates df))"
    unfolding eq by (rule first_occurrences_distinct)
  have s: "set (df_rows (handle_duplicates df)) = set ?rs"
    unfolding eq by (rule first_occurrences_set)
  have "length (map (\<lambda>i. ?rs ! i) ?first) \<le> length [0..<length ?rs]"
    unfolding length_map by (rule length_filter_le)
  then have l: "length (df_rows (handle_duplicates df)) \<le> length ?rs"
    unfolding eq by simp
  have n: "nrows (handle_duplicates df) \<le> nrows df"
    using l unfolding df_rows_def by simp
  have c: "columns (handle_duplicates df) = columns df"
    by (simp add: handle_duplicates_def drop_duplicates_def columns_def comp_def case_prod_unfold)
  from eq d s l n c show ?thesis
    by (intro conjI)
qed

subsection \<open>Medians\<close>




















subsection \<open>Modes, and imputation on a frame\<close>





















subsection \<open>Columns through the pipeline\<close>


lemma columns_set_col:
  "columns (set_col df name c)
     = (if name \<in> set (columns df) then columns df else columns df @ [name])"
proof (induction df)
  case Nil
  then show ?case by (simp add: columns_def)
next
  case (Cons p df)
  obtain name' c' where p: "p = (name', c')" by (cases p)
  show ?case
  proof (cases "name' = name")
    case True
    with p show ?thesis by (simp add: columns_def)
  next
    case False
    with p Cons.IH show ?thesis by (simp add: columns_def)
  qed
qed

lemma set_columns_set_col: "set (columns (set_col df name c)) = insert name (set (columns df))"
  by (auto simp: columns_set_col)







lemma columns_select_columns:
  "columns (select_columns df) = filter (\<lambda>col. col \<in> set (columns df)) required_cols"
  by (simp add: select_columns_def Let_def columns_def comp_def)

lemma columns_fill_numeric_cols: "columns (fill_numeric_cols df) = columns df"
  by (induction df) (auto simp: columns_def)

lemma columns_fill_categorical_cols:
  "fill_categorical_cols df = Inr df' \<Longrightarrow> columns df' = columns df"
proof (induction df arbitrary: df')
  case Nil
  then show ?case by (simp add: columns_def)
next
  case (Cons p df)
  obtain name c where p: "p = (name, c)" by (cases p)
  from Cons.prems p obtain c' rest where
    "fill_categorical_cols df = Inr rest" "df' = (name, c') # rest"
    by (auto split: sum.splits column.splits)
  with Cons.IH [of rest] p show ?case
    by (simp add: columns_def)
qed

lemma columns_handle_missing_data:
  "handle_missing_data df = Inr df' \<Longrightarrow> columns df' = columns df"
  unfolding handle_missing_data_def
  by (drule columns_fill_categorical_cols) (simp add: columns_fill_numeric_cols)

lemma columns_drop_duplicates: "columns (handle_duplicates df) = columns df"
  by (simp add: handle_duplicates_def drop_duplicates_def columns_def comp_def case_prod_unfold)

lemma normalize_categories_missing:
  "''STATUS'' \<notin> set (columns df) \<Longrightarrow> normalize_categories df = Inl LookupError"
  by (simp add: normalize_categories_def)

lemma columns_normalize_categories:
  "normalize_categories df = Inr df' \<Longrightarrow> columns df' = columns df"
  by (auto simp: normalize_categories_def columns_set_col
      split: if_splits option.splits column.splits sum.splits)

lemma columns_extract_date_features:
  "set (columns (extract_date_features parse df))
     \<subseteq> set (columns df) \<union> {''YEAR_ID'', ''MONTH_ID'', ''QTR_ID''}"
  by (auto simp: extract_date_features_def Let_def set_columns_set_col split: if_splits)

lemma validate_data_Inr: "validate_data df = Inr df' \<Longrightarrow> df' = df"
  by (auto simp: validate_data_def split: if_splits option.splits column.splits)

lemma schema_to_sql: "schema (to_sql fmt df) = columns df"
  by (simp add: to_sql_def)

lemma required_cols_extra: "{''YEAR_ID'', ''MONTH_ID'', ''QTR_ID''} \<subseteq> set required_cols"
  by (simp add: required_cols_def)

lemma main_schema:
  assumes "fst (main parse fmt df0) = Some t"
  shows "set (schema t) \<subseteq> set required_cols"
proof -
  from assms obtain df2 df4 df6 where
    s2: "handle_missing_data (select_columns df0) = Inr df2"
    and s4: "normalize_categories (handle_duplicates df2) = Inr df4"
    and s6: "validate_data (extract_date_features parse df4) = Inr df6"
    and t: "t = to_sql fmt df6"
    by (auto simp: main_def Let_def store_in_database_def split: sum.splits prod.splits)
  have "columns df4 = columns (select_columns df0)"
    using columns_handle_missing_data [OF s2] columns_normalize_categories [OF s4]
    by (simp add: columns_drop_duplicates)
  then have "set (columns df4) \<subseteq> set required_cols"
    by (auto simp: columns_select_columns)
  moreover have "df6 = extract_date_features parse df4"
    using s6 by (rule validate_data_Inr)
  ultimately have "set (columns df6) \<subseteq> set required_cols"
    using columns_extract_date_features [of parse df4] required_cols_extra by blast
  then show ?thesis
    by (simp add: t schema_to_sql)
qed

lemma optional_not_required:
  "''CUSTOMERNAME'' \<notin> set required_cols" "''COUNTRY'' \<notin> set required_cols"
  "''PRODUCTLINE'' \<notin> set required_cols"
  by (simp_all add: required_cols_def)


lemma raw_frame_main:
  "main example_parse example_fmt raw_frame =
     (Some \<lparr>schema = [''ORDERNUMBER'', ''QUANTITYORDERED'', ''SALES'', ''ORDERDATE'', ''STATUS'',
                      ''YEAR_ID'', ''MONTH_ID'', ''QTR_ID''],
            rows = [[Num 10107, Num 30, Num 2871, Text ''2003-02-24 00:00:00'', Text ''SHIPPED'',
                     Num 2003, Num 2, Num 1],
                    [Num 10121, Num 34, Num 2871, Text ''2003-05-07 00:00:00'', Text ''SHIPPED'',
                     Num 2003, Num 5, Num 2]]\<rparr>,
      Inr [(''ORDERNUMBER'', NumCol [Some 10107, Some 10121]),
           (''QUANTITYORDERED'', NumCol [Some 30, Some 34]),
           (''SALES'', NumCol [Some 2871, Some 2871]),
           (''ORDERDATE'', DateCol [Some (Timestamp 2003 2 24), Some (Timestamp 2003 5 7)]),
           (''STATUS'', ObjCol [Some ''SHIPPED'', Some ''SHIPPED'']),
           (''YEAR_ID'', NumCol [Some 2003, Some 2003]),
           (''MONTH_ID'', NumCol [Some 2, Some 5]),
           (''QTR_ID'', NumCol [Some 1, Some 2])])"
  by code_simp






text \<open>
  C10. Column selection keeps exactly the columns of the allow-list that the input
  has, so \<open>CUSTOMERNAME\<close>, \<open>COUNTRY\<close> and \<open>PRODUCTLINE\<close> are dropped; every table this
  pipeline writes has only allow-list columns, so on it sales-by-country and
  product-performance return their placeholder and top-customers groups by order id.
\<close>

theorem pipeline_drops_optional_columns:
  "columns (select_columns df0) = filter (\<lambda>col. col \<in> set (columns df0)) required_cols
   \<and> set (columns (select_columns df0)) \<subseteq> set required_cols
   \<and> ''CUSTOMERNAME'' \<notin> set (columns (select_columns df0))
   \<and> ''COUNTRY'' \<notin> set (columns (select_columns df0))
   \<and> ''PRODUCTLINE'' \<notin> set (columns (select_columns df0))
   \<and> (fst (main parse fmt df0) = Some t \<longrightarrow>
        set (schema t) \<subseteq> set required_cols
      \<and> sales_by_country cast t = Inr [[(''message'', Text ''Country data not available in dataset'')]]
      \<and> product_performance cast t = Inr [[(''message'', Text ''Product line data not available'')]]
      \<and> top_customers cast t n = top_by_order cast t n)"
proof -
  have sel: "set (columns (select_columns df0)) \<subseteq> set required_cols"
    by (auto simp: columns_select_columns)
  have stored: "set (schema t) \<subseteq> set required_cols
      \<and> sales_by_country cast t = Inr [[(''message'', Text ''Country data not available in dataset'')]]
      \<and> product_performance cast t = Inr [[(''message'', Text ''Product line data not available'')]]
      \<and> top_customers cast t n = top_by_order cast t n"
    if "fst (main parse fmt df0) = Some t"
  proof -
    have sub: "set (schema t) \<subseteq> set required_cols"
      using that by (rule main_schema)
    with optional_not_required have
      "''CUSTOMERNAME'' \<notin> set (schema t)" "''COUNTRY'' \<notin> set (schema t)"
      "''PRODUCTLINE'' \<notin> set (schema t)"
      by blast+
    with sub show ?thesis
      by (simp add: sales_by_country_def product_performance_def top_customers_def table_info_def)
  qed
  from sel optional_not_required have
    "''CUSTOMERNAME'' \<notin> set (columns (select_columns df0))"
    "''COUNTRY'' \<notin> set (columns (select_columns df0))"
    "''PRODUCTLINE'' \<notin> set (columns (select_columns df0))"
    by blast+
  with sel stored columns_select_columns [of df0] show ?thesis
    by blast
qed

theorem pipeline_drops_optional_columns_witness:
  "''CUSTOMERNAME'' \<in> set (columns raw_frame) \<and> ''COUNTRY'' \<in> set (columns raw_frame)
   \<and> ''PRODUCTLINE'' \<in> set (columns raw_frame)
   \<and> (\<exists>t. fst (main example_parse example_fmt raw_frame) = Some t
        \<and> schema t = [''ORDERNUMBER'', ''QUANTITYORDERED'', ''SALES'', ''ORDERDATE'', ''STATUS'',
                       ''YEAR_ID'', ''MONTH_ID'', ''QTR_ID'']
        \<and> sales_by_country (\<lambda>s. 0) t = Inr [[(''message'', Text ''Country data not available in dataset'')]]
        \<and> product_performance (\<lambda>s. 0) t = Inr [[(''message'', Text ''Product line data not available'')]]
        \<and> top_customers (\<lambda>s. 0) t 10 = top_by_order (\<lambda>s. 0) t 10)"
proof -
  have c: "''CUSTOMERNAME'' \<in> set (columns raw_frame)" "''COUNTRY'' \<in> set (columns raw_frame)"
    "''PRODUCTLINE'' \<in> set (columns raw_frame)"
    by (simp_all add: raw_frame_def columns_def)
  obtain t where t: "fst (main example_parse example_fmt raw_frame) = Some t"
    and s: "schema t = [''ORDERNUMBER'', ''QUANTITYORDERED'', ''SALES'', ''ORDERDATE'', ''STATUS'',
                       ''YEAR_ID'', ''MONTH_ID'', ''QTR_ID'']"
    by (simp add: raw_frame_main)
  from pipeline_drops_optional_columns [of raw_frame example_parse example_fmt t "\<lambda>s. 0" 10] t
  have "sales_by_country (\<lambda>s. 0) t = Inr [[(''message'', Text ''Country data not available in dataset'')]]
      \<and> product_performance (\<lambda>s. 0) t = Inr [[(''message'', Text ''Product line data not available'')]]
      \<and> top_customers (\<lambda>s. 0) t 10 = top_by_order (\<lambda>s. 0) t 10"
    by blast
  with c t s show ?thesis by blast
qed


text \<open>
  C2. The claim fails on the code: on a frame without a \<open>STATUS\<close> column the
  normalization step raises (its \<open>print\<close> reads \<open>df['STATUS']\<close> outside the guard),
  and the pipeline stops there without writing a table.
\<close>

theorem missing_status_aborts_pipeline:
  "''STATUS'' \<notin> set (columns no_status_frame)
   \<and> normalize_categories (handle_duplicates (select_columns no_status_frame)) = Inl LookupError
   \<and> main example_parse example_fmt no_status_frame = (None, Inl LookupError)"
  by code_simp

end
